theory Spec2Isabelle
  imports Complex_Main "HOL-Library.Log_Nat"
begin

section \<open>Data model of the portfolio API\<close>

text \<open>
  The rows follow the fields that the portfolio controller reads and writes through the
  database client. A finite JavaScript number is modelled by its value, a rational;
  identifiers and symbols are strings, time stamps are integers. Columns that the
  database fills in by itself and that the controller never reads (row ids of
  positions and transactions,
  \<open>updatedAt\<close>, \<open>lastUpdated\<close>) are left out; the id and creation time of a new
  portfolio and the date of a new transaction are chosen by the database and therefore
  enter the model as arguments of the request.
\<close>

record portfolio =
  p_id :: string
  p_userId :: string
  p_name :: string
  p_createdAt :: int

record position =
  portfolioId :: string
  symbol :: string
  shares :: rat
  averagePrice :: rat
  currentPrice :: rat
  marketValue :: rat
  costBasis :: rat
  gain :: rat
  gainPercent :: rat
  weight :: rat

record transaction =
  t_portfolioId :: string
  t_userId :: string
  t_symbol :: string
  t_type :: string
  t_shares :: rat
  t_price :: rat
  t_total :: rat
  t_fees :: rat
  t_notes :: "string option"
  t_date :: int

record store =
  portfolios :: "portfolio list"
  positions :: "position list"
  transactions :: "transaction list"

text \<open>The body of \<open>POST /:id/transactions\<close>; \<open>fees\<close> and \<open>notes\<close> may be absent.\<close>

record txBody =
  b_symbol :: string
  b_type :: string
  b_shares :: rat
  b_price :: rat
  b_fees :: "rat option"
  b_notes :: "string option"

datatype error =
    PortfolioNotFound
  | PositionNotFound
  | InvalidTransactionError
  | ServerError

datatype payload =
    PortfolioList "(portfolio \<times> position list \<times> nat \<times> nat) list"
  | PortfolioDetail portfolio "position list" "transaction list"
  | PortfolioData portfolio
  | PortfolioOpt "portfolio option"
  | PositionList "position list"
  | PositionData position
  | PositionOpt "position option"
  | TransactionList "transaction list"
  | TransactionData transaction
  | Null

type_synonym response = "error + payload"

datatype request =
    GetPortfolios
  | GetPortfolio string
  | CreatePortfolio string string int
  | UpdatePortfolio string string
  | DeletePortfolio string
  | GetPositions string
  | AddPosition string string rat rat
  | UpdatePosition string string rat rat
  | RemovePosition string string
  | GetTransactions string "nat option" "nat option"
  | AddTransaction string txBody int

section \<open>Double-precision arithmetic\<close>

text \<open>
  The numbers of the transaction handler are IEEE 754 doubles (the arithmetic of the
  position handlers and of the questionnaire is kept exact). An operation on doubles
  returns the exact result rounded to the nearest double, ties to the even significand;
  \<open>None\<close> stands for a result that is not finite. \<open>ilog2 a\<close> is the integer part of the
  binary logarithm of a positive \<open>a\<close>. A double has a significand of 53 bits, the
  smallest spacing is \<open>pow2 (- 1074)\<close>, and a rounded magnitude of \<open>pow2 1024\<close> or more is
  infinite.
\<close>

definition pow2 :: "int \<Rightarrow> rat" where
  "pow2 e = (if 0 \<le> e then 2 ^ nat e else 1 / 2 ^ nat (- e))"

definition ilog2 :: "rat \<Rightarrow> int" where
  "ilog2 a =
     (let k = bitlen (fst (quotient_of a)) - bitlen (snd (quotient_of a))
      in if pow2 k \<le> a then k else k - 1)"

definition roundHalfEven :: "rat \<Rightarrow> int" where
  "roundHalfEven m =
     (let n = \<lfloor>m\<rfloor>; r = m - of_int n
      in if r < 1 / 2 then n else if 1 / 2 < r then n + 1 else if even n then n else n + 1)"

definition roundToDouble :: "rat \<Rightarrow> rat option" where
  "roundToDouble x =
     (if x = 0 then Some 0
      else
        let a = \<bar>x\<bar>;
            e = max (ilog2 a - 52) (- 1074);
            r = of_int (roundHalfEven (a / pow2 e)) * pow2 e
        in if 1024 \<le> ilog2 r then None else Some (sgn x * r))"

definition isDouble :: "rat \<Rightarrow> bool" where
  "isDouble x \<longleftrightarrow> roundToDouble x = Some x"

text \<open>\<open>x * y\<close> and \<open>x + y\<close> in JavaScript; an infinite left operand of \<open>+\<close> stays infinite.\<close>

definition jsMul :: "rat \<Rightarrow> rat \<Rightarrow> rat option" where
  "jsMul x y = roundToDouble (x * y)"

definition jsAdd :: "rat option \<Rightarrow> rat \<Rightarrow> rat option" where
  "jsAdd x y = (case x of None \<Rightarrow> None | Some v \<Rightarrow> roundToDouble (v + y))"

section \<open>The portfolio controller\<close>

text \<open>
  \<open>owns s u pid\<close> is the relation filter \<open>portfolio: { userId: u }\<close> on a row that
  refers to portfolio \<open>pid\<close>, and also the test \<open>findFirst({ id, userId }) \<noteq> null\<close>.
\<close>

definition owns :: "store \<Rightarrow> string \<Rightarrow> string \<Rightarrow> bool" where
  "owns s u pid = list_ex (\<lambda>p. p_id p = pid \<and> p_userId p = u) (portfolios s)"

definition includePositions :: "store \<Rightarrow> portfolio \<Rightarrow> position list" where
  "includePositions s p = filter (\<lambda>x. portfolioId x = p_id p) (positions s)"

definition includeTransactions :: "store \<Rightarrow> portfolio \<Rightarrow> transaction list" where
  "includeTransactions s p = filter (\<lambda>t. t_portfolioId t = p_id p) (transactions s)"

text \<open>\<open>orderBy: { f: 'desc' }\<close>; rows with equal keys keep their table order.\<close>

definition orderByDesc :: "('a \<Rightarrow> 'k::{linorder,uminus}) \<Rightarrow> 'a list \<Rightarrow> 'a list" where
  "orderByDesc f xs = sort_key (\<lambda>x. - f x) xs"

definition getPortfolios :: "string \<Rightarrow> store \<Rightarrow> response \<times> store" where
  "getPortfolios u s =
     (Inr (PortfolioList
        (map (\<lambda>p. (p, includePositions s p, length (includePositions s p),
                    length (includeTransactions s p)))
           (orderByDesc p_createdAt (filter (\<lambda>p. p_userId p = u) (portfolios s))))), s)"

definition getPortfolio :: "string \<Rightarrow> string \<Rightarrow> store \<Rightarrow> response \<times> store" where
  "getPortfolio u pid s =
     (case find (\<lambda>p. p_id p = pid \<and> p_userId p = u) (portfolios s) of
        None \<Rightarrow> (Inl PortfolioNotFound, s)
      | Some p \<Rightarrow>
          (Inr (PortfolioDetail p (includePositions s p)
                  (take 10 (orderByDesc t_date (includeTransactions s p)))), s))"

definition createPortfolio ::
  "string \<Rightarrow> string \<Rightarrow> string \<Rightarrow> int \<Rightarrow> store \<Rightarrow> response \<times> store" where
  "createPortfolio u name newId now s =
     (let p = \<lparr>p_id = newId, p_userId = u, p_name = name, p_createdAt = now\<rparr>
      in (Inr (PortfolioData p), s\<lparr>portfolios := portfolios s @ [p]\<rparr>))"

definition updatePortfolio :: "string \<Rightarrow> string \<Rightarrow> string \<Rightarrow> store \<Rightarrow> response \<times> store" where
  "updatePortfolio u pid name s =
     (let hit = (\<lambda>p. p_id p = pid \<and> p_userId p = u);
          s' = s\<lparr>portfolios := map (\<lambda>p. if hit p then p\<lparr>p_name := name\<rparr> else p) (portfolios s)\<rparr>
      in if length (filter hit (portfolios s)) = 0 then (Inl PortfolioNotFound, s')
         else (Inr (PortfolioOpt (find (\<lambda>p. p_id p = pid) (portfolios s'))), s'))"

text \<open>
  Modelled from the spec: the database schema with the relations' delete rule is not
  part of the sources; the specification's data model says that deleting a portfolio
  cascades to its positions and transactions.
\<close>

definition cascade :: "string \<Rightarrow> store \<Rightarrow> store" where
  "cascade pid s =
     s\<lparr>positions := filter (\<lambda>x. portfolioId x \<noteq> pid) (positions s),
       transactions := filter (\<lambda>t. t_portfolioId t \<noteq> pid) (transactions s)\<rparr>"

definition deletePortfolio :: "string \<Rightarrow> string \<Rightarrow> store \<Rightarrow> response \<times> store" where
  "deletePortfolio u pid s =
     (let hit = (\<lambda>p. p_id p = pid \<and> p_userId p = u)
      in if length (filter hit (portfolios s)) = 0 then (Inl PortfolioNotFound, s)
         else (Inr Null, cascade pid (s\<lparr>portfolios := filter (\<lambda>p. \<not> hit p) (portfolios s)\<rparr>)))"

definition getPositions :: "string \<Rightarrow> string \<Rightarrow> store \<Rightarrow> response \<times> store" where
  "getPositions u pid s =
     (Inr (PositionList
        (orderByDesc marketValue
           (filter (\<lambda>x. portfolioId x = pid \<and> owns s u (portfolioId x)) (positions s)))), s)"

text \<open>
  \<open>upsert\<close> on the unique key \<open>(portfolioId, symbol)\<close>: an existing row gets
  \<open>shares\<close> incremented and \<open>averagePrice\<close> set to \<open>0\<close>; otherwise a row is created.
\<close>

definition addPosition ::
  "string \<Rightarrow> string \<Rightarrow> string \<Rightarrow> rat \<Rightarrow> rat \<Rightarrow> store \<Rightarrow> response \<times> store" where
  "addPosition u pid smb sh avg s =
     (if \<not> owns s u pid then (Inl PortfolioNotFound, s)
      else
        let key = (\<lambda>x. portfolioId x = pid \<and> symbol x = smb);
            upd = (\<lambda>x. x\<lparr>shares := shares x + sh, averagePrice := 0\<rparr>)
        in case find key (positions s) of
             Some x \<Rightarrow>
               (Inr (PositionData (upd x)),
                s\<lparr>positions := map (\<lambda>y. if key y then upd y else y) (positions s)\<rparr>)
           | None \<Rightarrow>
               (let x = \<lparr>portfolioId = pid, symbol = smb, shares = sh, averagePrice = avg,
                         currentPrice = avg, marketValue = sh * avg, costBasis = sh * avg,
                         gain = 0, gainPercent = 0, weight = 0\<rparr>
                in (Inr (PositionData x), s\<lparr>positions := positions s @ [x]\<rparr>)))"

definition updatePosition ::
  "string \<Rightarrow> string \<Rightarrow> string \<Rightarrow> rat \<Rightarrow> rat \<Rightarrow> store \<Rightarrow> response \<times> store" where
  "updatePosition u pid smb sh avg s =
     (let hit = (\<lambda>x. portfolioId x = pid \<and> symbol x = smb \<and> owns s u (portfolioId x));
          s' = s\<lparr>positions :=
                  map (\<lambda>x. if hit x then x\<lparr>shares := sh, averagePrice := avg\<rparr> else x)
                    (positions s)\<rparr>
      in if length (filter hit (positions s)) = 0 then (Inl PositionNotFound, s')
         else (Inr (PositionOpt
                 (find (\<lambda>x. portfolioId x = pid \<and> symbol x = smb) (positions s'))), s'))"

definition removePosition :: "string \<Rightarrow> string \<Rightarrow> string \<Rightarrow> store \<Rightarrow> response \<times> store" where
  "removePosition u pid smb s =
     (let hit = (\<lambda>x. portfolioId x = pid \<and> symbol x = smb \<and> owns s u (portfolioId x));
          s' = s\<lparr>positions := filter (\<lambda>x. \<not> hit x) (positions s)\<rparr>
      in if length (filter hit (positions s)) = 0 then (Inl PositionNotFound, s')
         else (Inr Null, s'))"

text \<open>
  \<open>limit\<close> and \<open>offset\<close> default to 50 and 0; the model covers query values that
  \<open>parseInt\<close> reads as natural numbers.
\<close>

definition getTransactions ::
  "string \<Rightarrow> string \<Rightarrow> nat option \<Rightarrow> nat option \<Rightarrow> store \<Rightarrow> response \<times> store" where
  "getTransactions u pid limit offset s =
     (Inr (TransactionList
        (take (case limit of None \<Rightarrow> 50 | Some n \<Rightarrow> n)
           (drop (case offset of None \<Rightarrow> 0 | Some n \<Rightarrow> n)
              (orderByDesc t_date
                 (filter (\<lambda>t. t_portfolioId t = pid \<and> owns s u (t_portfolioId t))
                    (transactions s)))))), s)"

text \<open>
  \<open>total = shares * price + fees\<close> is computed on doubles. When the total is not finite
  the database client refuses the row: the call fails with a server error and nothing is
  stored.
\<close>

definition addTransaction ::
  "string \<Rightarrow> string \<Rightarrow> txBody \<Rightarrow> int \<Rightarrow> store \<Rightarrow> response \<times> store" where
  "addTransaction u pid b now s =
     (if \<not> owns s u pid then (Inl PortfolioNotFound, s)
      else
        let fees = (case b_fees b of None \<Rightarrow> 0 | Some f \<Rightarrow> f)
        in case jsAdd (jsMul (b_shares b) (b_price b)) fees of
             None \<Rightarrow> (Inl ServerError, s)
           | Some total' \<Rightarrow>
               (let t = \<lparr>t_portfolioId = pid, t_userId = u, t_symbol = b_symbol b,
                         t_type = b_type b, t_shares = b_shares b, t_price = b_price b,
                         t_total = total', t_fees = fees, t_notes = b_notes b, t_date = now\<rparr>
                in (Inr (TransactionData t), s\<lparr>transactions := transactions s @ [t]\<rparr>)))"

fun handle :: "string \<Rightarrow> request \<Rightarrow> store \<Rightarrow> response \<times> store" where
  "handle u GetPortfolios s = getPortfolios u s"
| "handle u (GetPortfolio pid) s = getPortfolio u pid s"
| "handle u (CreatePortfolio name newId now) s = createPortfolio u name newId now s"
| "handle u (UpdatePortfolio pid name) s = updatePortfolio u pid name s"
| "handle u (DeletePortfolio pid) s = deletePortfolio u pid s"
| "handle u (GetPositions pid) s = getPositions u pid s"
| "handle u (AddPosition pid smb sh avg) s = addPosition u pid smb sh avg s"
| "handle u (UpdatePosition pid smb sh avg) s = updatePosition u pid smb sh avg s"
| "handle u (RemovePosition pid smb) s = removePosition u pid smb s"
| "handle u (GetTransactions pid limit offset) s = getTransactions u pid limit offset s"
| "handle u (AddTransaction pid b now) s = addTransaction u pid b now s"

section \<open>The transaction route\<close>

text \<open>
  \<open>router.post('/:id/transactions', transactionValidation, validateRequest, addTransaction)\<close>.
  The body fields \<open>shares\<close>, \<open>price\<close> and \<open>fees\<close> are taken to be JSON numbers; on a
  number \<open>isFloat({ min: m })\<close> is the comparison with \<open>m\<close>. The sanitizer \<open>trim()\<close>
  replaces the symbol in the request by the trimmed one; symbols are ASCII strings.
\<close>

definition isSpace :: "char \<Rightarrow> bool" where
  "isSpace c \<longleftrightarrow> c \<in> set [CHR '' '', CHR 0x09, CHR 0x0A, CHR 0x0B, CHR 0x0C, CHR 0x0D]"

definition trim :: "string \<Rightarrow> string" where
  "trim str = rev (dropWhile isSpace (rev (dropWhile isSpace str)))"

definition transactionValidation :: "txBody \<Rightarrow> string list" where
  "transactionValidation b =
     (if 1 \<le> length (trim (b_symbol b)) \<and> length (trim (b_symbol b)) \<le> 10 then []
      else [''Symbol is required'']) @
     (if b_type b \<in> set [''BUY'', ''SELL''] then []
      else [''Transaction type must be BUY or SELL'']) @
     (if 1 / 10000 \<le> b_shares b then [] else [''Shares must be a positive number'']) @
     (if 1 / 100 \<le> b_price b then [] else [''Price must be a positive number'']) @
     (case b_fees b of
        None \<Rightarrow> []
      | Some f \<Rightarrow> if 0 \<le> f then [] else [''Fees must be a non-negative number''])"

definition sanitize :: "txBody \<Rightarrow> txBody" where
  "sanitize b = b\<lparr>b_symbol := trim (b_symbol b)\<rparr>"

text \<open>
  Modelled from the spec: the middleware \<open>validateRequest\<close> is imported by the route
  but is not part of the sources. The specification's error design says that an invalid
  transaction is rejected with \<open>InvalidTransactionError\<close> before anything else happens;
  so a request whose validation chain recorded an error fails with that error and the
  handler does not run.
\<close>

definition validateRequest ::
  "string list \<Rightarrow> (store \<Rightarrow> response \<times> store) \<Rightarrow> store \<Rightarrow> response \<times> store" where
  "validateRequest errors next s =
     (if errors \<noteq> [] then (Inl InvalidTransactionError, s) else next s)"

definition postTransaction ::
  "string \<Rightarrow> string \<Rightarrow> txBody \<Rightarrow> int \<Rightarrow> store \<Rightarrow> response \<times> store" where
  "postTransaction u pid b now s =
     validateRequest (transactionValidation b) (addTransaction u pid (sanitize b) now) s"

section \<open>Sequences of requests, ledger figures, and what a user can see\<close>


text \<open>The share count held for a portfolio and symbol is the \<open>shares\<close> column of its row.\<close>

definition heldShares :: "store \<Rightarrow> string \<Rightarrow> string \<Rightarrow> rat" where
  "heldShares s pid smb =
     sum_list (map shares (filter (\<lambda>x. portfolioId x = pid \<and> symbol x = smb) (positions s)))"



text \<open>
  \<open>userView u s\<close> keeps the rows of \<open>u\<close>: the portfolios with \<open>userId = u\<close> and the
  positions and transactions of those portfolios.
\<close>

definition userView :: "string \<Rightarrow> store \<Rightarrow> store" where
  "userView u s =
     \<lparr>portfolios = filter (\<lambda>p. p_userId p = u) (portfolios s),
      positions = filter (\<lambda>x. owns s u (portfolioId x)) (positions s),
      transactions = filter (\<lambda>t. owns s u (t_portfolioId t)) (transactions s)\<rparr>"

text \<open>
  The constraints the database keeps: portfolio ids are a primary key, and the
  \<open>portfolioId\<close> of every position and transaction refers to a portfolio.
\<close>

definition wf :: "store \<Rightarrow> bool" where
  "wf s \<longleftrightarrow>
     distinct (map p_id (portfolios s)) \<and>
     list_all (\<lambda>x. portfolioId x \<in> set (map p_id (portfolios s))) (positions s) \<and>
     list_all (\<lambda>t. t_portfolioId t \<in> set (map p_id (portfolios s))) (transactions s)"

text \<open>The id that the database generates for a new portfolio is not in use.\<close>

fun fresh :: "request \<Rightarrow> store \<Rightarrow> bool" where
  "fresh (CreatePortfolio name newId now) s \<longleftrightarrow> newId \<notin> set (map p_id (portfolios s))"
| "fresh _ s \<longleftrightarrow> True"

section \<open>The risk questionnaire\<close>

datatype questionType = MULTIPLE_CHOICE | SCALE | TEXT

record RiskQuestion =
  q_id :: string
  q_question :: string
  q_type :: questionType
  q_options :: "string list option"
  q_weight :: rat
  q_category :: string

datatype answer = Str string | Num rat

datatype riskProfile = conservative | moderate | aggressive

definition riskQuestions :: "RiskQuestion list" where
  "riskQuestions =
     [\<lparr>q_id = ''1'', q_question = ''What is your primary investment goal?'',
       q_type = MULTIPLE_CHOICE,
       q_options = Some [''Capital preservation'', ''Income generation'', ''Growth'',
                         ''Aggressive growth''],
       q_weight = 3, q_category = ''Investment Goals''\<rparr>,
      \<lparr>q_id = ''2'', q_question = ''What is your investment time horizon?'',
       q_type = MULTIPLE_CHOICE,
       q_options = Some [''Less than 1 year'', ''1-3 years'', ''3-5 years'', ''5-10 years'',
                         ''More than 10 years''],
       q_weight = 4, q_category = ''Time Horizon''\<rparr>,
      \<lparr>q_id = ''3'',
       q_question = ''How would you react to a 20% decline in your portfolio value?'',
       q_type = MULTIPLE_CHOICE,
       q_options = Some [''Sell all investments immediately'',
                         ''Sell some investments to reduce risk'',
                         ''Hold and wait for recovery'',
                         ''Buy more while prices are low''],
       q_weight = 5, q_category = ''Risk Tolerance''\<rparr>,
      \<lparr>q_id = ''4'', q_question = ''What percentage of your income do you invest?'',
       q_type = MULTIPLE_CHOICE,
       q_options = Some [''Less than 5%'', ''5-10%'', ''10-20%'', ''20-30%'', ''More than 30%''],
       q_weight = 2, q_category = ''Financial Situation''\<rparr>,
      \<lparr>q_id = ''5'', q_question = ''Rate your investment knowledge (1-10)'',
       q_type = SCALE, q_options = None, q_weight = 2, q_category = ''Knowledge''\<rparr>,
      \<lparr>q_id = ''6'', q_question = ''How important is it to beat the market average?'',
       q_type = MULTIPLE_CHOICE,
       q_options = Some [''Not important at all'', ''Somewhat important'', ''Very important'',
                         ''Extremely important''],
       q_weight = 3, q_category = ''Performance Expectations''\<rparr>]"

text \<open>
  \<open>Array.prototype.indexOf\<close> compares with strict equality, so a number is never found
  in a list of strings; the result is \<open>-1\<close> when nothing is found.
\<close>

fun indexOf :: "string list \<Rightarrow> answer \<Rightarrow> int" where
  "indexOf [] a = - 1"
| "indexOf (x # xs) a =
     (if a = Str x then 0 else (let i = indexOf xs a in if i < 0 then - 1 else i + 1))"

text \<open>
  \<open>e || 0\<close> for \<open>e\<close> a number or \<open>undefined\<close> (\<open>None\<close>): only \<open>undefined\<close> and \<open>0\<close>
  are falsy, every other number, \<open>-1\<close> included, is kept.
\<close>

definition orZero :: "int option \<Rightarrow> int" where
  "orZero e = (case e of None \<Rightarrow> 0 | Some i \<Rightarrow> if i = 0 then 0 else i)"

definition optionIndex :: "RiskQuestion \<Rightarrow> answer \<Rightarrow> int" where
  "optionIndex q a = orZero (map_option (\<lambda>os. indexOf os a) (q_options q))"

text \<open>
  What one answered question adds to \<open>totalScore\<close>. The component records a number for a
  scale question; a string there would go through JavaScript's conversion of strings to
  numbers, which the model leaves out: the result is \<open>None\<close> in that case.
\<close>

definition answerScore :: "RiskQuestion \<Rightarrow> answer \<Rightarrow> rat option" where
  "answerScore q a =
     (if q_type q = MULTIPLE_CHOICE then Some (of_int (optionIndex q a + 1) * q_weight q)
      else if q_type q = SCALE then (case a of Num n \<Rightarrow> Some (n * q_weight q) | Str v \<Rightarrow> None)
      else Some 0)"

text \<open>\<open>(question.options?.length || 10) * question.weight\<close>\<close>

definition answerMax :: "RiskQuestion \<Rightarrow> rat" where
  "answerMax q =
     of_nat (case q_options q of
               None \<Rightarrow> 10
             | Some os \<Rightarrow> if length os = 0 then 10 else length os) * q_weight q"

fun scoreAll ::
  "(string \<rightharpoonup> answer) \<Rightarrow> RiskQuestion list \<Rightarrow> rat \<times> rat \<Rightarrow> (rat \<times> rat) option" where
  "scoreAll answers [] acc = Some acc"
| "scoreAll answers (q # qs) (totalScore, maxScore) =
     (case answers (q_id q) of
        None \<Rightarrow> scoreAll answers qs (totalScore, maxScore)
      | Some a \<Rightarrow>
          (case answerScore q a of
             None \<Rightarrow> None
           | Some v \<Rightarrow> scoreAll answers qs (totalScore + v, maxScore + answerMax q)))"

text \<open>
  With no answered question both sums are \<open>0\<close> and \<open>riskScore\<close> is \<open>0 / 0\<close>, not a number:
  both comparisons are false and the profile is the last one.
\<close>

definition calculateRiskProfile :: "(string \<rightharpoonup> answer) \<Rightarrow> riskProfile option" where
  "calculateRiskProfile answers =
     (case scoreAll answers riskQuestions (0, 0) of
        None \<Rightarrow> None
      | Some (totalScore, maxScore) \<Rightarrow>
          Some (if maxScore = 0 then aggressive
                else (let riskScore = totalScore / maxScore * 100
                      in if riskScore < 30 then conservative
                         else if riskScore < 70 then moderate
                         else aggressive)))"

section \<open>The dashboard's fixtures\<close>

text \<open>The positions of the fixture \<open>mockPortfolio\<close> and its total value.\<close>

record mockPosition =
  m_id :: string
  m_symbol :: string
  m_name :: string
  m_shares :: rat
  m_averagePrice :: rat
  m_currentPrice :: rat
  m_marketValue :: rat
  m_costBasis :: rat
  m_gain :: rat
  m_gainPercent :: rat
  m_weight :: rat

definition mockPortfolio_totalValue :: rat where
  "mockPortfolio_totalValue = 12543050 / 100"

definition mockPortfolio_positions :: "mockPosition list" where
  "mockPortfolio_positions =
     [\<lparr>m_id = ''1'', m_symbol = ''AAPL'', m_name = ''Apple Inc.'', m_shares = 50,
       m_averagePrice = 150, m_currentPrice = 17525 / 100, m_marketValue = 876250 / 100,
       m_costBasis = 7500, m_gain = 126250 / 100, m_gainPercent = 1683 / 100,
       m_weight = 699 / 100\<rparr>,
      \<lparr>m_id = ''2'', m_symbol = ''GOOGL'', m_name = ''Alphabet Inc.'', m_shares = 25,
       m_averagePrice = 2800, m_currentPrice = 320050 / 100, m_marketValue = 8001250 / 100,
       m_costBasis = 70000, m_gain = 1001250 / 100, m_gainPercent = 1430 / 100,
       m_weight = 6378 / 100\<rparr>,
      \<lparr>m_id = ''3'', m_symbol = ''TSLA'', m_name = ''Tesla Inc.'', m_shares = 100,
       m_averagePrice = 200, m_currentPrice = 25075 / 100, m_marketValue = 25075,
       m_costBasis = 20000, m_gain = 5075, m_gainPercent = 2538 / 100,
       m_weight = 1999 / 100\<rparr>,
      \<lparr>m_id = ''4'', m_symbol = ''MSFT'', m_name = ''Microsoft Corporation'', m_shares = 30,
       m_averagePrice = 300, m_currentPrice = 28550 / 100, m_marketValue = 8565,
       m_costBasis = 9000, m_gain = - 435, m_gainPercent = - 483 / 100,
       m_weight = 683 / 100\<rparr>]"

section \<open>Example states\<close>

definition store1 :: store where
  "store1 =
     \<lparr>portfolios = [\<lparr>p_id = ''p1'', p_userId = ''ann'', p_name = ''Main'', p_createdAt = 1\<rparr>,
                    \<lparr>p_id = ''p2'', p_userId = ''bob'', p_name = ''Main'', p_createdAt = 2\<rparr>],
      positions = [], transactions = []\<rparr>"

definition aapl50 :: position where
  "aapl50 =
     \<lparr>portfolioId = ''p1'', symbol = ''AAPL'', shares = 50, averagePrice = 150,
      currentPrice = 150, marketValue = 7500, costBasis = 7500, gain = 0, gainPercent = 0,
      weight = 0\<rparr>"

definition store2 :: store where
  "store2 = store1\<lparr>positions := [aapl50]\<rparr>"

definition store3 :: store where
  "store3 =
     store2\<lparr>positions :=
               [aapl50,
                \<lparr>portfolioId = ''p2'', symbol = ''MSFT'', shares = 30, averagePrice = 300,
                 currentPrice = 300, marketValue = 9000, costBasis = 9000, gain = 0,
                 gainPercent = 0, weight = 0\<rparr>]\<rparr>"

definition sell :: "rat \<Rightarrow> txBody" where
  "sell n =
     \<lparr>b_symbol = ''AAPL'', b_type = ''SELL'', b_shares = n, b_price = 5, b_fees = Some 1,
      b_notes = None\<rparr>"

definition tx_sell10 :: transaction where
  "tx_sell10 =
     \<lparr>t_portfolioId = ''p1'', t_userId = ''ann'', t_symbol = ''AAPL'', t_type = ''SELL'',
      t_shares = 10, t_price = 5, t_total = 51, t_fees = 1, t_notes = None, t_date = 7\<rparr>"

definition answers1 :: "string \<rightharpoonup> answer" where
  "answers1 =
     [''1'' \<mapsto> Str ''Capital preservation'', ''2'' \<mapsto> Str ''Less than 1 year'',
      ''3'' \<mapsto> Str ''Sell all investments immediately'', ''4'' \<mapsto> Str ''Less than 5%'',
      ''5'' \<mapsto> Num 7, ''6'' \<mapsto> Str ''Not important at all'']"



text \<open>
  The doubles nearest to \<open>0.1\<close>, \<open>0.7\<close> and \<open>1e200\<close>, and a request whose total is not
  finite.
\<close>

definition d01 :: rat where
  "d01 = 3602879701896397 / 2 ^ 55"

definition d07 :: rat where
  "d07 = 3152519739159347 / 2 ^ 52"

definition d1e200 :: rat where
  "d1e200 = 99999999999999996973312221251036165947450327545502362648241750950346848435554075534196338404706251868027512415973882408182135734368278484639385041047239877871023591066789981811181813306167128854888448"

definition sellHuge :: txBody where
  "sellHuge =
     \<lparr>b_symbol = ''AAPL'', b_type = ''SELL'', b_shares = d1e200, b_price = d1e200,
      b_fees = None, b_notes = None\<rparr>"

section \<open>Isolation between users\<close>

text \<open>
  The proof goes through the restriction \<open>userView u\<close>: every operation called by \<open>u\<close>
  answers on a store as it answers on the restriction of the store to the rows of \<open>u\<close>,
  and restricting the new store is the same as running the operation on the restricted
  one. First some facts about lists.
\<close>

lemma owns_iff: "owns s u pid \<longleftrightarrow> (\<exists>p\<in>set (portfolios s). p_id p = pid \<and> p_userId p = u)"
  by (simp add: owns_def list_ex_iff)

lemma owns_userView [simp]: "owns (userView u s) u pid = owns s u pid"
  by (auto simp: owns_iff userView_def)

lemma find_conj_filter: "find (\<lambda>x. K x \<and> P x) xs = find K (filter P xs)"
  by (induction xs) auto

lemma find_filter_imp:
  "(\<And>x. x \<in> set xs \<Longrightarrow> K x \<Longrightarrow> P x) \<Longrightarrow> find K (filter P xs) = find K xs"
  by (induction xs) auto

lemma find_map_pres: "(\<And>x. K (f x) = K x) \<Longrightarrow> find K (map f xs) = map_option f (find K xs)"
  by (induction xs) auto

lemma getPortfolios_resp: "fst (getPortfolios u s) = fst (getPortfolios u (userView u s))"
  apply (simp add: getPortfolios_def userView_def includePositions_def includeTransactions_def orderByDesc_def)
  apply (auto simp: owns_iff intro!: filter_cong arg_cong[where f=length])
  done

lemma getPortfolio_resp: "fst (getPortfolio u pid s) = fst (getPortfolio u pid (userView u s))"
proof -
  have f: "find (\<lambda>p. p_id p = pid \<and> p_userId p = u) (portfolios (userView u s))
         = find (\<lambda>p. p_id p = pid \<and> p_userId p = u) (portfolios s)"
    by (simp add: userView_def find_conj_filter)
  show ?thesis
  proof (cases "find (\<lambda>p. p_id p = pid \<and> p_userId p = u) (portfolios s)")
    case None
    then show ?thesis using f by (simp add: getPortfolio_def)
  next
    case (Some p)
    then have "p \<in> set (portfolios s)" "p_id p = pid" "p_userId p = u"
      by (auto simp: find_Some_iff)
    then have o: "owns s u (p_id p)" by (auto simp: owns_iff)
    have 1: "includePositions (userView u s) p = includePositions s p"
      using o by (auto simp: includePositions_def userView_def intro!: filter_cong)
    have 2: "includeTransactions (userView u s) p = includeTransactions s p"
      using o by (auto simp: includeTransactions_def userView_def intro!: filter_cong)
    show ?thesis using Some f 1 2 by (simp add: getPortfolio_def)
  qed
qed

lemma userView_sel [simp]:
  "portfolios (userView u s) = filter (\<lambda>p. p_userId p = u) (portfolios s)"
  "positions (userView u s) = filter (\<lambda>x. owns s u (portfolioId x)) (positions s)"
  "transactions (userView u s) = filter (\<lambda>t. owns s u (t_portfolioId t)) (transactions s)"
  by (simp_all add: userView_def)

lemma filter_conj_absorb: "filter (\<lambda>x. K x \<and> P x) (filter P xs) = filter (\<lambda>x. K x \<and> P x) xs"
  by (induction xs) auto

lemma getPositions_resp: "fst (getPositions u pid s) = fst (getPositions u pid (userView u s))"
  by (simp add: getPositions_def filter_conj_absorb del: filter_filter)

lemma getTransactions_resp:
  "fst (getTransactions u pid l off s) = fst (getTransactions u pid l off (userView u s))"
  by (simp add: getTransactions_def filter_conj_absorb del: filter_filter)

lemma owns_filter:
  "owns s u pid = list_ex (\<lambda>p. p_id p = pid) (filter (\<lambda>p. p_userId p = u) (portfolios s))"
  by (auto simp: owns_iff list_ex_iff)

lemma owns_portfolios_cong:
  "filter (\<lambda>p. p_userId p = u) (portfolios s') = filter (\<lambda>p. p_userId p = u) (portfolios s)
   \<Longrightarrow> owns s' u pid = owns s u pid"
  by (simp only: owns_filter)

lemma owns_upd_other [simp]:
  "owns (s\<lparr>positions := ps\<rparr>) u pid = owns s u pid"
  "owns (s\<lparr>transactions := ts\<rparr>) u pid = owns s u pid"
  by (simp_all add: owns_def)

lemma store_eqI:
  fixes a b :: store
  shows "portfolios a = portfolios b \<Longrightarrow> positions a = positions b
    \<Longrightarrow> transactions a = transactions b \<Longrightarrow> a = b"
  by (cases a, cases b) simp

lemma addTransaction_resp:
  "fst (addTransaction u pid b now s) = fst (addTransaction u pid b now (userView u s))"
  by (simp add: addTransaction_def Let_def split: option.split)

lemma addTransaction_state:
  "userView u (snd (addTransaction u pid b now s)) = snd (addTransaction u pid b now (userView u s))"
  by (rule store_eqI) (simp_all add: addTransaction_def Let_def split: option.split)

lemma createPortfolio_resp:
  "fst (createPortfolio u name newId now s) = fst (createPortfolio u name newId now (userView u s))"
  by (simp add: createPortfolio_def Let_def)

lemma wf_refs:
  assumes "wf s"
  shows "x \<in> set (positions s) \<Longrightarrow> portfolioId x \<in> p_id ` set (portfolios s)"
    and "t \<in> set (transactions s) \<Longrightarrow> t_portfolioId t \<in> p_id ` set (portfolios s)"
  using assms by (auto simp: wf_def list_all_iff)

lemma createPortfolio_state:
  assumes "wf s" "newId \<notin> set (map p_id (portfolios s))"
  shows "userView u (snd (createPortfolio u name newId now s))
       = snd (createPortfolio u name newId now (userView u s))"
proof -
  have "\<And>x. x \<in> set (positions s) \<Longrightarrow> portfolioId x \<noteq> newId"
    using assms wf_refs(1) by fastforce
  moreover have "\<And>t. t \<in> set (transactions s) \<Longrightarrow> t_portfolioId t \<noteq> newId"
    using assms wf_refs(2) by fastforce
  ultimately show ?thesis
    by (intro store_eqI) (auto simp: createPortfolio_def Let_def owns_iff intro!: filter_cong)
qed

lemma filter_map_if:
  "(\<And>x. P (g x) = P x) \<Longrightarrow>
   filter P (map (\<lambda>x. if H x then g x else x) xs) = map (\<lambda>x. if H x then g x else x) (filter P xs)"
  by (induction xs) auto

lemma list_ex_map_if:
  "(\<And>x. K (g x) = K x) \<Longrightarrow> list_ex K (map (\<lambda>x. if H x then g x else x) xs) = list_ex K xs"
  by (induction xs) auto

lemma find_map_if:
  "(\<And>x. K (g x) = K x) \<Longrightarrow>
   find K (map (\<lambda>x. if H x then g x else x) xs)
   = map_option (\<lambda>x. if H x then g x else x) (find K xs)"
  by (induction xs) auto

lemma conj_dup: "(P \<and> Q \<and> P) \<longleftrightarrow> (Q \<and> P)"
  by auto

lemma owns_rename [simp]:
  "owns (s\<lparr>portfolios := map (\<lambda>p. if H p then p\<lparr>p_name := n\<rparr> else p) (portfolios s)\<rparr>) v q
   = owns s v q"
  by (simp add: owns_def list_ex_map_if)

lemma find_id_userView:
  assumes "distinct (map p_id ps)" "p \<in> set ps" "p_id p = pid" "p_userId p = u"
  shows "find (\<lambda>p. p_id p = pid) (filter (\<lambda>p. p_userId p = u) ps) = find (\<lambda>p. p_id p = pid) ps"
  using assms by (intro find_filter_imp) (auto simp: distinct_map inj_on_def)

lemma updatePortfolio_resp:
  assumes "wf s"
  shows "fst (updatePortfolio u pid name s) = fst (updatePortfolio u pid name (userView u s))"
proof (cases "filter (\<lambda>p. p_id p = pid \<and> p_userId p = u) (portfolios s) = []")
  case True
  then show ?thesis by (simp add: updatePortfolio_def Let_def conj_dup)
next
  case False
  then obtain p where p: "p \<in> set (portfolios s)" "p_id p = pid" "p_userId p = u"
    by (auto simp: filter_empty_conv)
  have d: "distinct (map p_id (portfolios s))" using assms by (simp add: wf_def)
  show ?thesis using False find_id_userView[OF d p]
    by (simp add: updatePortfolio_def Let_def find_map_if conj_dup)
qed

lemma updatePortfolio_state:
  "userView u (snd (updatePortfolio u pid name s)) = snd (updatePortfolio u pid name (userView u s))"
  by (rule store_eqI) (simp_all add: updatePortfolio_def Let_def filter_map_if)

lemma filter_filter_imp:
  "(\<And>x. x \<in> set xs \<Longrightarrow> K x \<Longrightarrow> P x) \<Longrightarrow> filter K (filter P xs) = filter K xs"
  by (induction xs) auto

lemma owns_cascade [simp]: "owns (cascade pid s) v q = owns s v q"
  by (simp add: owns_def cascade_def)

lemma owns_delete_same:
  "owns (s\<lparr>portfolios := filter (\<lambda>p. p_id p = pid \<longrightarrow> p_userId p \<noteq> u) (portfolios s)\<rparr>) u q
   \<longleftrightarrow> owns s u q \<and> q \<noteq> pid"
  by (auto simp: owns_iff)

lemma deletePortfolio_resp:
  "fst (deletePortfolio u pid s) = fst (deletePortfolio u pid (userView u s))"
  by (simp add: deletePortfolio_def Let_def conj_dup)

lemma cascade_sel [simp]:
  "portfolios (cascade pid s) = portfolios s"
  "positions (cascade pid s) = filter (\<lambda>x. portfolioId x \<noteq> pid) (positions s)"
  "transactions (cascade pid s) = filter (\<lambda>t. t_portfolioId t \<noteq> pid) (transactions s)"
  by (simp_all add: cascade_def)

lemma deletePortfolio_state:
  "userView u (snd (deletePortfolio u pid s)) = snd (deletePortfolio u pid (userView u s))"
proof (cases "filter (\<lambda>p. p_id p = pid \<and> p_userId p = u) (portfolios s) = []")
  case True
  then show ?thesis by (simp add: deletePortfolio_def Let_def conj_dup)
next
  case False
  show ?thesis
    apply (rule store_eqI)
    using False
      apply (simp_all add: deletePortfolio_def Let_def conj_dup owns_delete_same)
      apply (auto intro!: filter_cong)
    done
qed

lemma addPosition_find:
  "owns s u pid \<Longrightarrow>
   find (\<lambda>x. portfolioId x = pid \<and> symbol x = smb) (positions (userView u s))
   = find (\<lambda>x. portfolioId x = pid \<and> symbol x = smb) (positions s)"
  by (simp, intro find_filter_imp, auto)

lemma addPosition_resp:
  "fst (addPosition u pid smb sh avg s) = fst (addPosition u pid smb sh avg (userView u s))"
  by (simp add: addPosition_def Let_def addPosition_find del: userView_sel split: option.split)

lemma addPosition_state:
  "userView u (snd (addPosition u pid smb sh avg s)) = snd (addPosition u pid smb sh avg (userView u s))"
proof (cases "owns s u pid")
  case False
  then show ?thesis by (simp add: addPosition_def)
next
  case True
  show ?thesis
    apply (rule store_eqI)
    using True
      apply (simp_all add: addPosition_def Let_def addPosition_find del: userView_sel split: option.split)
      apply (simp_all add: filter_map_if)
    done
qed

lemma updatePosition_resp:
  "fst (updatePosition u pid smb sh avg s) = fst (updatePosition u pid smb sh avg (userView u s))"
proof -
  let ?hit = "\<lambda>x. portfolioId x = pid \<and> symbol x = smb \<and> owns s u (portfolioId x)"
  have c: "filter ?hit (positions (userView u s)) = filter ?hit (positions s)"
    by (simp del: filter_filter, intro filter_filter_imp, auto)
  show ?thesis
  proof (cases "filter ?hit (positions s) = []")
    case True
    then show ?thesis using c by (simp add: updatePosition_def Let_def del: userView_sel)
  next
    case False
    then have o: "owns s u pid" by (auto simp: filter_empty_conv)
    have "find (\<lambda>x. portfolioId x = pid \<and> symbol x = smb) (positions (userView u s))
        = find (\<lambda>x. portfolioId x = pid \<and> symbol x = smb) (positions s)"
      using o by (simp, intro find_filter_imp, auto)
    then show ?thesis using False c
      by (simp add: updatePosition_def Let_def find_map_if del: userView_sel)
  qed
qed

lemma updatePosition_state:
  "userView u (snd (updatePosition u pid smb sh avg s))
   = snd (updatePosition u pid smb sh avg (userView u s))"
  by (rule store_eqI) (simp_all add: updatePosition_def Let_def filter_map_if)

lemma removePosition_resp:
  "fst (removePosition u pid smb s) = fst (removePosition u pid smb (userView u s))"
proof -
  let ?hit = "\<lambda>x. portfolioId x = pid \<and> symbol x = smb \<and> owns s u (portfolioId x)"
  have c: "filter ?hit (positions (userView u s)) = filter ?hit (positions s)"
    by (simp del: filter_filter, intro filter_filter_imp, auto)
  show ?thesis using c by (simp add: removePosition_def Let_def del: userView_sel)
qed

lemma removePosition_state:
  "userView u (snd (removePosition u pid smb s)) = snd (removePosition u pid smb (userView u s))"
  by (rule store_eqI) (auto simp: removePosition_def Let_def intro!: filter_cong)

text \<open>
  A portfolio id belongs to one user only, so what \<open>u\<close> may write is never a row of
  another user \<open>u'\<close>.
\<close>

lemma owns_excl:
  assumes "wf s" "owns s u pid" "u' \<noteq> u"
  shows "\<not> owns s u' pid"
proof
  assume "owns s u' pid"
  then obtain q where q: "q \<in> set (portfolios s)" "p_id q = pid" "p_userId q = u'"
    by (auto simp: owns_iff)
  from assms(2) obtain p where p: "p \<in> set (portfolios s)" "p_id p = pid" "p_userId p = u"
    by (auto simp: owns_iff)
  have "inj_on p_id (set (portfolios s))" using assms(1) by (simp add: wf_def distinct_map)
  then have "p = q" using p q by (auto dest: inj_onD)
  then show False using p q assms(3) by simp
qed

lemma filter_map_if_miss:
  "(\<And>x. x \<in> set xs \<Longrightarrow> H x \<Longrightarrow> \<not> P x \<and> \<not> P (g x)) \<Longrightarrow>
   filter P (map (\<lambda>x. if H x then g x else x) xs) = filter P xs"
  by (induction xs) auto

lemma filter_filter_miss:
  "(\<And>x. x \<in> set xs \<Longrightarrow> P x \<Longrightarrow> K x) \<Longrightarrow> filter P (filter K xs) = filter P xs"
  by (induction xs) auto

lemma owns_create_other:
  "u' \<noteq> u \<Longrightarrow>
   owns (s\<lparr>portfolios := portfolios s @ [\<lparr>p_id = i, p_userId = u, p_name = n, p_createdAt = c\<rparr>]\<rparr>) u' q
   = owns s u' q"
  by (auto simp: owns_def)

lemma owns_delete_other:
  "u' \<noteq> u \<Longrightarrow>
   owns (s\<lparr>portfolios := filter (\<lambda>p. p_id p = pid \<longrightarrow> p_userId p \<noteq> u) (portfolios s)\<rparr>) u' q
   = owns s u' q"
  by (auto simp: owns_iff)

lemma createPortfolio_other:
  "u' \<noteq> u \<Longrightarrow> userView u' (snd (createPortfolio u name newId now s)) = userView u' s"
  by (rule store_eqI) (simp_all add: createPortfolio_def Let_def owns_create_other)

lemma updatePortfolio_other:
  "u' \<noteq> u \<Longrightarrow> userView u' (snd (updatePortfolio u pid name s)) = userView u' s"
proof -
  assume ne: "u' \<noteq> u"
  have "filter (\<lambda>p. p_userId p = u')
          (map (\<lambda>p. if p_id p = pid \<and> p_userId p = u then p\<lparr>p_name := name\<rparr> else p) (portfolios s))
      = filter (\<lambda>p. p_userId p = u') (portfolios s)"
    using ne by (intro filter_map_if_miss) auto
  then show ?thesis
    by (intro store_eqI) (simp_all add: updatePortfolio_def Let_def)
qed

lemma deletePortfolio_other:
  assumes "wf s" "u' \<noteq> u"
  shows "userView u' (snd (deletePortfolio u pid s)) = userView u' s"
proof (cases "filter (\<lambda>p. p_id p = pid \<and> p_userId p = u) (portfolios s) = []")
  case True
  then show ?thesis by (simp add: deletePortfolio_def)
next
  case False
  then have o: "owns s u pid" by (auto simp: owns_iff filter_empty_conv)
  have n: "\<not> owns s u' pid" by (rule owns_excl[OF assms(1) o assms(2)])
  have 1: "filter (\<lambda>x. owns s u' (portfolioId x)) (filter (\<lambda>x. portfolioId x \<noteq> pid) (positions s))
         = filter (\<lambda>x. owns s u' (portfolioId x)) (positions s)"
    using n by (intro filter_filter_miss) auto
  have 2: "filter (\<lambda>t. owns s u' (t_portfolioId t)) (filter (\<lambda>t. t_portfolioId t \<noteq> pid) (transactions s))
         = filter (\<lambda>t. owns s u' (t_portfolioId t)) (transactions s)"
    using n by (intro filter_filter_miss) auto
  have 3: "filter (\<lambda>p. p_userId p = u') (filter (\<lambda>p. p_id p = pid \<longrightarrow> p_userId p \<noteq> u) (portfolios s))
         = filter (\<lambda>p. p_userId p = u') (portfolios s)"
    using assms(2) by (intro filter_filter_miss) auto
  show ?thesis
    apply (rule store_eqI)
    using False 1 2 3 assms(2)
      apply (simp_all add: deletePortfolio_def Let_def owns_delete_other del: filter_filter)
    done
qed

lemma addPosition_other:
  assumes "wf s" "u' \<noteq> u"
  shows "userView u' (snd (addPosition u pid smb sh avg s)) = userView u' s"
proof (cases "owns s u pid")
  case False
  then show ?thesis by (simp add: addPosition_def)
next
  case True
  have n: "\<not> owns s u' pid" by (rule owns_excl[OF assms(1) True assms(2)])
  show ?thesis
    apply (rule store_eqI)
    using True n
      apply (simp_all add: addPosition_def Let_def split: option.split)
    apply (intro allI impI filter_map_if_miss)
    apply auto
    done
qed

lemma updatePosition_other:
  assumes "wf s" "u' \<noteq> u"
  shows "userView u' (snd (updatePosition u pid smb sh avg s)) = userView u' s"
proof -
  have "\<And>x. owns s u (portfolioId x) \<Longrightarrow> \<not> owns s u' (portfolioId x)"
    using owns_excl[OF assms(1) _ assms(2)] by blast
  then show ?thesis
    apply (intro store_eqI)
      apply (simp_all add: updatePosition_def Let_def)
    apply (intro filter_map_if_miss)
    apply auto
    done
qed

lemma removePosition_other:
  assumes "wf s" "u' \<noteq> u"
  shows "userView u' (snd (removePosition u pid smb s)) = userView u' s"
proof -
  have "\<And>x. owns s u (portfolioId x) \<Longrightarrow> \<not> owns s u' (portfolioId x)"
    using owns_excl[OF assms(1) _ assms(2)] by blast
  then show ?thesis
    apply (intro store_eqI)
      apply (simp_all add: removePosition_def Let_def)
    apply (intro filter_cong)
    apply auto
    done
qed

lemma addTransaction_other:
  assumes "wf s" "u' \<noteq> u"
  shows "userView u' (snd (addTransaction u pid b now s)) = userView u' s"
proof (cases "owns s u pid")
  case False
  then show ?thesis by (simp add: addTransaction_def)
next
  case True
  have n: "\<not> owns s u' pid" by (rule owns_excl[OF assms(1) True assms(2)])
  show ?thesis
    by (rule store_eqI)
      (use True n in \<open>simp_all add: addTransaction_def Let_def split: option.split\<close>)
qed

text \<open>The key constraints are kept by every operation.\<close>

lemma wf_iff:
  "wf s \<longleftrightarrow> distinct (map p_id (portfolios s)) \<and>
     (\<forall>x\<in>set (positions s). portfolioId x \<in> p_id ` set (portfolios s)) \<and>
     (\<forall>t\<in>set (transactions s). t_portfolioId t \<in> p_id ` set (portfolios s))"
  by (simp add: wf_def list_all_iff)

lemma owns_in_ids: "owns s u pid \<Longrightarrow> pid \<in> p_id ` set (portfolios s)"
  by (auto simp: owns_iff)

lemma map_id_rename:
  "map p_id (map (\<lambda>p. if H p then p\<lparr>p_name := n\<rparr> else p) ps) = map p_id ps"
  by (induction ps) auto

lemma wf_createPortfolio:
  "wf s \<Longrightarrow> newId \<notin> set (map p_id (portfolios s)) \<Longrightarrow> wf (snd (createPortfolio u name newId now s))"
  by (auto simp: wf_iff createPortfolio_def Let_def)

lemma wf_updatePortfolio:
  assumes "wf s"
  shows "wf (snd (updatePortfolio u pid name s))"
proof -
  let ?s' = "snd (updatePortfolio u pid name s)"
  have "map p_id (portfolios ?s') = map p_id (portfolios s)"
    by (simp add: updatePortfolio_def Let_def map_id_rename del: map_map)
  moreover have "positions ?s' = positions s" "transactions ?s' = transactions s"
    by (simp_all add: updatePortfolio_def Let_def)
  ultimately show ?thesis using assms by (simp only: wf_def)
qed

lemma wf_deletePortfolio: "wf s \<Longrightarrow> wf (snd (deletePortfolio u pid s))"
  by (auto simp: wf_iff deletePortfolio_def Let_def distinct_map_filter)

lemma wf_addPosition: "wf s \<Longrightarrow> wf (snd (addPosition u pid smb sh avg s))"
  by (auto simp: wf_iff addPosition_def Let_def dest: owns_in_ids split: option.split)

lemma wf_updatePosition: "wf s \<Longrightarrow> wf (snd (updatePosition u pid smb sh avg s))"
  by (auto simp: wf_iff updatePosition_def Let_def)

lemma wf_removePosition: "wf s \<Longrightarrow> wf (snd (removePosition u pid smb s))"
  by (auto simp: wf_iff removePosition_def Let_def)

lemma wf_addTransaction: "wf s \<Longrightarrow> wf (snd (addTransaction u pid b now s))"
  by (auto simp: wf_iff addTransaction_def Let_def dest: owns_in_ids split: option.split)

lemma wf_handle: "wf s \<Longrightarrow> fresh r s \<Longrightarrow> wf (snd (handle u r s))"
  by (cases r)
    (simp_all add: wf_createPortfolio wf_updatePortfolio wf_deletePortfolio wf_addPosition
      wf_updatePosition wf_removePosition wf_addTransaction
      getPortfolios_def getPortfolio_def getPositions_def getTransactions_def split: option.split)

lemma handle_resp: "wf s \<Longrightarrow> fst (handle u r s) = fst (handle u r (userView u s))"
  by (cases r)
    (simp_all only: handle.simps getPortfolios_resp[symmetric] getPortfolio_resp[symmetric]
      createPortfolio_resp[symmetric] updatePortfolio_resp[symmetric] deletePortfolio_resp[symmetric]
      getPositions_resp[symmetric] addPosition_resp[symmetric] updatePosition_resp[symmetric]
      removePosition_resp[symmetric] getTransactions_resp[symmetric] addTransaction_resp[symmetric])

lemma handle_state:
  "wf s \<Longrightarrow> fresh r s \<Longrightarrow> userView u (snd (handle u r s)) = snd (handle u r (userView u s))"
  by (cases r)
    (simp_all add: createPortfolio_state updatePortfolio_state deletePortfolio_state
      addPosition_state updatePosition_state removePosition_state addTransaction_state
      getPortfolios_def getPositions_def getTransactions_def getPortfolio_resp
      del: userView_sel, simp_all add: getPortfolio_def find_conj_filter split: option.split)

lemma handle_other:
  "wf s \<Longrightarrow> u' \<noteq> u \<Longrightarrow> userView u' (snd (handle u r s)) = userView u' s"
  by (cases r)
    (simp_all add: createPortfolio_other updatePortfolio_other deletePortfolio_other
      addPosition_other updatePosition_other removePosition_other addTransaction_other
      getPortfolios_def getPositions_def getTransactions_def getPortfolio_def
      del: userView_sel split: option.split)

text \<open>
  Claim C8. Every operation of the portfolio controller works on the rows of the
  authenticated user only. Take two database states that obey the key constraints and
  in which user \<open>u\<close> owns the same rows, whatever the other users own. Then every
  request of \<open>u\<close> gets the same response in both states and leaves \<open>u\<close> with the same
  rows in both; and the request changes no row of any other user \<open>u'\<close>. The constraints
  still hold afterwards.
\<close>

theorem user_isolation:
  assumes "wf s1" and "wf s2" and "fresh r s1" and "fresh r s2"
    and "userView u s1 = userView u s2" and "u' \<noteq> u"
  shows "fst (handle u r s1) = fst (handle u r s2) \<and>
         userView u (snd (handle u r s1)) = userView u (snd (handle u r s2)) \<and>
         userView u' (snd (handle u r s1)) = userView u' s1 \<and>
         wf (snd (handle u r s1))"
proof -
  have "fst (handle u r s1) = fst (handle u r (userView u s1))"
    using assms(1) by (rule handle_resp)
  also have "\<dots> = fst (handle u r s2)"
    using assms(2,5) by (simp add: handle_resp[symmetric] del: userView_sel)
  finally have 1: "fst (handle u r s1) = fst (handle u r s2)" .
  have 2: "userView u (snd (handle u r s1)) = userView u (snd (handle u r s2))"
    using assms(1-5) by (simp add: handle_state del: userView_sel)
  have 3: "userView u' (snd (handle u r s1)) = userView u' s1"
    using assms(1,6) by (rule handle_other)
  have 4: "wf (snd (handle u r s1))"
    using assms(1,3) by (rule wf_handle)
  from 1 2 3 4 show ?thesis by blast
qed

theorem user_isolation_witness:
  "wf store2 \<and> wf store3 \<and> fresh (AddPosition ''p1'' ''AAPL'' 50 160) store2 \<and>
   fresh (AddPosition ''p1'' ''AAPL'' 50 160) store3 \<and>
   userView ''ann'' store2 = userView ''ann'' store3 \<and> ''bob'' \<noteq> ''ann'' \<and>
   fst (handle ''ann'' (AddPosition ''p1'' ''AAPL'' 50 160) store2)
     = fst (handle ''ann'' (AddPosition ''p1'' ''AAPL'' 50 160) store3) \<and>
   userView ''ann'' (snd (handle ''ann'' (AddPosition ''p1'' ''AAPL'' 50 160) store2))
     = userView ''ann'' (snd (handle ''ann'' (AddPosition ''p1'' ''AAPL'' 50 160) store3)) \<and>
   userView ''bob'' (snd (handle ''ann'' (AddPosition ''p1'' ''AAPL'' 50 160) store2))
     = userView ''bob'' store2 \<and>
   wf (snd (handle ''ann'' (AddPosition ''p1'' ''AAPL'' 50 160) store2))"
proof -
  have h1: "wf store2" by code_simp
  have h2: "wf store3" by code_simp
  have h3: "fresh (AddPosition ''p1'' ''AAPL'' 50 160) store2" by simp
  have h4: "fresh (AddPosition ''p1'' ''AAPL'' 50 160) store3" by simp
  have h5: "userView ''ann'' store2 = userView ''ann'' store3" by code_simp
  have h6: "''bob'' \<noteq> ''ann''" by simp
  show ?thesis
    using h1 h2 h3 h4 h5 h6 user_isolation[OF h1 h2 h3 h4 h5 h6] by blast
qed


section \<open>Facts about double arithmetic\<close>

text \<open>
  \<open>ilog2\<close> is the integer binary logarithm; a magnitude of \<open>pow2 1024\<close> or more rounds
  to no finite double; and every integer below \<open>2 ^ 53\<close> in magnitude, scaled by a power
  of two within the exponent range, is a double.
\<close>

lemma pow2_powi: "pow2 e = 2 powi e"
  by (simp add: pow2_def power_int_def power_one_over inverse_eq_divide)

lemma pow2_pos: "0 < pow2 e"
  by (simp add: pow2_powi)

lemma pow2_add: "pow2 (i + j) = pow2 i * pow2 j"
  by (simp add: pow2_powi power_int_add)

lemma pow2_less_iff: "pow2 i < pow2 j \<longleftrightarrow> i < j"
proof
  assume "pow2 i < pow2 j"
  show "i < j"
  proof (rule ccontr)
    assume "\<not> i < j"
    then have "j \<le> i" by simp
    then have "pow2 j \<le> pow2 i"
      unfolding pow2_powi by (intro power_int_increasing) simp_all
    with \<open>pow2 i < pow2 j\<close> show False by simp
  qed
next
  assume "i < j"
  then show "pow2 i < pow2 j"
    unfolding pow2_powi by (intro power_int_strict_increasing) simp_all
qed

lemma pow2_le_iff: "pow2 i \<le> pow2 j \<longleftrightarrow> i \<le> j"
  using pow2_less_iff[of j i] by (auto simp: not_less[symmetric])

lemma of_int_bitlen_bounds:
  assumes "0 < p"
  shows "pow2 (bitlen p - 1) \<le> of_int p" and "of_int p < pow2 (bitlen p)"
proof -
  have b: "1 \<le> bitlen p" using assms by (auto simp: bitlen_alt_def)
  from bitlen_bounds[OF assms]
  have 1: "(2::int) ^ nat (bitlen p - 1) \<le> p" and 2: "p < 2 ^ nat (bitlen p)" by simp_all
  from 1 have "(of_int ((2::int) ^ nat (bitlen p - 1)) :: rat) \<le> of_int p"
    by (simp only: of_int_le_iff)
  then show "pow2 (bitlen p - 1) \<le> of_int p" using b by (simp add: pow2_def)
  from 2 have "(of_int p :: rat) < of_int ((2::int) ^ nat (bitlen p))"
    by (simp only: of_int_less_iff)
  then show "of_int p < pow2 (bitlen p)" using b by (simp add: pow2_def)
qed

lemma ilog2_bounds:
  assumes "0 < a"
  shows "pow2 (ilog2 a) \<le> a \<and> a < pow2 (ilog2 a + 1)"
proof -
  obtain p q where pq: "quotient_of a = (p, q)" by (cases "quotient_of a")
  then have q: "0 < q" by (rule quotient_of_denom_pos)
  have a: "a = of_int p / of_int q" using pq by (rule quotient_of_div)
  have p: "0 < p" using assms q unfolding a by (simp add: zero_less_divide_iff)
  let ?k = "bitlen p - bitlen q"
  note bp = of_int_bitlen_bounds[OF p] and bq = of_int_bitlen_bounds[OF q]
  have qpos: "(0::rat) < of_int q" using q by simp
  have up: "a < pow2 (?k + 1)"
  proof -
    have "a * of_int q = of_int p" unfolding a using qpos by simp
    also have "\<dots> < pow2 (bitlen p)" by (rule bp(2))
    also have "\<dots> = pow2 (?k + 1) * pow2 (bitlen q - 1)"
      by (simp add: pow2_add[symmetric])
    also have "\<dots> \<le> pow2 (?k + 1) * of_int q"
      using bq(1) pow2_pos[of "?k + 1"] by (simp add: mult_left_mono)
    finally show ?thesis using qpos by simp
  qed
  have lo: "pow2 (?k - 1) \<le> a"
  proof -
    have "pow2 (?k - 1) * of_int q \<le> pow2 (?k - 1) * pow2 (bitlen q)"
      using bq(2) pow2_pos[of "?k - 1"] by (simp add: mult_left_mono)
    also have "\<dots> = pow2 (bitlen p - 1)" by (simp add: pow2_add[symmetric])
    also have "\<dots> \<le> of_int p" by (rule bp(1))
    also have "\<dots> = a * of_int q" unfolding a using qpos by simp
    finally show ?thesis using qpos by simp
  qed
  show ?thesis
  proof (cases "pow2 ?k \<le> a")
    case True
    then have "ilog2 a = ?k" by (simp add: ilog2_def pq)
    with True up show ?thesis by simp
  next
    case False
    then have "ilog2 a = ?k - 1" by (simp add: ilog2_def pq)
    with False lo show ?thesis by simp
  qed
qed

lemma ilog2_ge: "0 < a \<Longrightarrow> pow2 k \<le> a \<Longrightarrow> k \<le> ilog2 a"
proof -
  assume "0 < a" "pow2 k \<le> a"
  with ilog2_bounds[of a] have "pow2 k < pow2 (ilog2 a + 1)" by simp
  then show ?thesis by (simp add: pow2_less_iff)
qed

lemma roundHalfEven_ge_floor: "\<lfloor>m\<rfloor> \<le> roundHalfEven m"
  by (simp add: roundHalfEven_def Let_def)

lemma roundToDouble_overflow:
  assumes "pow2 1024 \<le> \<bar>x\<bar>"
  shows "roundToDouble x = None"
proof -
  let ?a = "\<bar>x\<bar>"
  let ?L = "ilog2 ?a"
  have a: "0 < ?a" using assms pow2_pos[of 1024] by linarith
  then have x: "x \<noteq> 0" by simp
  have L: "1024 \<le> ?L" using a assms by (rule ilog2_ge)
  then have e: "max (?L - 52) (- 1074) = ?L - 52" by simp
  let ?n = "roundHalfEven (?a / pow2 (?L - 52))"
  let ?r = "of_int ?n * pow2 (?L - 52)"
  have "pow2 52 = pow2 ?L / pow2 (?L - 52)"
    using pow2_add[of 52 "?L - 52"] pow2_pos[of "?L - 52"] by simp
  also have "\<dots> \<le> ?a / pow2 (?L - 52)"
    using ilog2_bounds[OF a] pow2_pos[of "?L - 52"] by (simp add: divide_right_mono)
  finally have m: "pow2 52 \<le> ?a / pow2 (?L - 52)" .
  have "(of_int (2 ^ 52) :: rat) \<le> ?a / pow2 (?L - 52)"
    using m by (simp add: pow2_def)
  then have "2 ^ 52 \<le> \<lfloor>?a / pow2 (?L - 52)\<rfloor>" by (simp only: le_floor_iff)
  with roundHalfEven_ge_floor[of "?a / pow2 (?L - 52)"] have n: "2 ^ 52 \<le> ?n" by linarith
  then have "(of_int (2 ^ 52) :: rat) \<le> of_int ?n" by (simp only: of_int_le_iff)
  then have "pow2 52 \<le> of_int ?n" by (simp add: pow2_def)
  then have "pow2 52 * pow2 (?L - 52) \<le> ?r"
    using pow2_pos[of "?L - 52"] by (simp add: mult_right_mono)
  then have r: "pow2 ?L \<le> ?r" by (simp add: pow2_add[symmetric])
  have "pow2 1024 \<le> pow2 ?L" using L by (simp add: pow2_le_iff)
  with r have r1024: "pow2 1024 \<le> ?r" by linarith
  then have "0 < ?r" using pow2_pos[of 1024] by linarith
  then have "1024 \<le> ilog2 ?r" using r1024 by (rule ilog2_ge)
  then show ?thesis using x e by (simp add: roundToDouble_def Let_def)
qed

lemma roundHalfEven_of_int: "roundHalfEven (of_int k) = k"
  by (simp add: roundHalfEven_def Let_def)

lemma ilog2_less: "0 < a \<Longrightarrow> a < pow2 k \<Longrightarrow> ilog2 a < k"
proof -
  assume "0 < a" "a < pow2 k"
  with ilog2_bounds[of a] have "pow2 (ilog2 a) < pow2 k" by simp
  then show ?thesis by (simp add: pow2_less_iff)
qed

lemma pow2_nonneg_int: "0 \<le> d \<Longrightarrow> pow2 d = of_int (2 ^ nat d)"
  by (simp add: pow2_def)

lemma isDouble_scaled:
  assumes k: "\<bar>k\<bar> < 2 ^ 53" and lo: "- 1074 \<le> e" and hi: "e \<le> 971"
  shows "isDouble (of_int k * pow2 e)"
proof (cases "k = 0")
  case True
  then show ?thesis by (simp add: isDouble_def roundToDouble_def)
next
  case False
  define x :: rat where "x = of_int k * pow2 e"
  define a where "a = \<bar>x\<bar>"
  define c :: rat where "c = of_int \<bar>k\<bar>"
  define e' where "e' = max (ilog2 a - 52) (- 1074)"
  have ax: "a = c * pow2 e"
    using pow2_pos[of e] by (simp add: a_def x_def c_def abs_mult)
  have x0: "x \<noteq> 0" using False pow2_pos[of e] by (simp add: x_def)
  then have a: "0 < a" by (simp add: a_def)
  have "c < (of_int (2 ^ 53) :: rat)" unfolding c_def using k by (simp only: of_int_less_iff)
  then have "c < pow2 53" by (simp add: pow2_def)
  then have "a < pow2 53 * pow2 e"
    unfolding ax using pow2_pos[of e] by (simp add: mult_strict_right_mono)
  then have "a < pow2 (53 + e)" by (simp add: pow2_add)
  with a have L: "ilog2 a < 53 + e" by (rule ilog2_less)
  have e': "e' \<le> e" using L lo by (simp add: e'_def)
  then have d: "0 \<le> e - e'" by simp
  have split: "pow2 e = pow2 (e - e') * pow2 e'"
    using pow2_add[of "e - e'" e'] by simp
  have m: "a / pow2 e' = of_int (\<bar>k\<bar> * 2 ^ nat (e - e'))"
  proof -
    have "a / pow2 e' = c * pow2 (e - e')"
      unfolding ax split using pow2_pos[of e'] by simp
    then show ?thesis by (simp add: pow2_nonneg_int[OF d] c_def)
  qed
  have r: "of_int (roundHalfEven (a / pow2 e')) * pow2 e' = a"
  proof -
    have "of_int (roundHalfEven (a / pow2 e')) * pow2 e'
            = (of_int (\<bar>k\<bar> * 2 ^ nat (e - e')) :: rat) * pow2 e'"
      unfolding m roundHalfEven_of_int ..
    also have "\<dots> = c * (pow2 (e - e') * pow2 e')"
      by (simp add: pow2_nonneg_int[OF d] c_def)
    also have "\<dots> = a" unfolding ax using split by simp
    finally show ?thesis .
  qed
  have n: "\<not> 1024 \<le> ilog2 a" using L hi by simp
  have "roundToDouble x = Some (sgn x * a)"
    using x0 n r unfolding roundToDouble_def Let_def a_def[symmetric] e'_def[symmetric]
    by simp
  then have "roundToDouble x = Some x" by (simp add: a_def sgn_mult_abs)
  then show ?thesis by (simp add: isDouble_def x_def)
qed

lemma isDouble_of_int: "\<bar>k\<bar> < 2 ^ 53 \<Longrightarrow> isDouble (of_int k)"
  using isDouble_scaled[of k 0] by (simp add: pow2_def)

lemma example_doubles: "isDouble d01 \<and> isDouble d07 \<and> isDouble d1e200"
proof -
  have 1: "d01 = of_int 3602879701896397 * pow2 (- 55)"
    by (simp add: d01_def pow2_def)
  have 2: "d07 = of_int 3152519739159347 * pow2 (- 52)"
    by (simp add: d07_def pow2_def)
  have 3: "d1e200 = of_int 2941796710330669 * pow2 613"
    by (simp add: d1e200_def pow2_def)
  show ?thesis
    unfolding 1 2 3 by (intro conjI isDouble_scaled) simp_all
qed

section \<open>Recording transactions\<close>

lemma postTransaction_accept:
  "transactionValidation b = [] \<Longrightarrow>
   postTransaction u pid b now s = addTransaction u pid (sanitize b) now s"
  by (simp add: postTransaction_def validateRequest_def)

lemma postTransaction_reject:
  "transactionValidation b \<noteq> [] \<Longrightarrow>
   postTransaction u pid b now s = (Inl InvalidTransactionError, s)"
  by (simp add: postTransaction_def validateRequest_def)

lemma validation_ok_iff:
  "transactionValidation b = [] \<longleftrightarrow>
     1 \<le> length (trim (b_symbol b)) \<and> length (trim (b_symbol b)) \<le> 10 \<and>
     (b_type b = ''BUY'' \<or> b_type b = ''SELL'') \<and>
     1 / 10000 \<le> b_shares b \<and> 1 / 100 \<le> b_price b \<and>
     (\<forall>f. b_fees b = Some f \<longrightarrow> 0 \<le> f)"
  by (auto simp: transactionValidation_def split: option.splits)

text \<open>The three outcomes of the handler.\<close>

lemma addTransaction_not_owner:
  "\<not> owns s u pid \<Longrightarrow> addTransaction u pid b now s = (Inl PortfolioNotFound, s)"
  by (simp add: addTransaction_def)

lemma addTransaction_not_finite:
  "owns s u pid \<Longrightarrow>
   jsAdd (jsMul (b_shares b) (b_price b)) (case b_fees b of None \<Rightarrow> 0 | Some f \<Rightarrow> f) = None \<Longrightarrow>
   addTransaction u pid b now s = (Inl ServerError, s)"
  by (simp add: addTransaction_def)

lemma addTransaction_stored:
  "owns s u pid \<Longrightarrow>
   jsAdd (jsMul (b_shares b) (b_price b)) (case b_fees b of None \<Rightarrow> 0 | Some f \<Rightarrow> f) = Some v \<Longrightarrow>
   addTransaction u pid b now s
     = (Inr (TransactionData
          \<lparr>t_portfolioId = pid, t_userId = u, t_symbol = b_symbol b, t_type = b_type b,
           t_shares = b_shares b, t_price = b_price b, t_total = v,
           t_fees = (case b_fees b of None \<Rightarrow> 0 | Some f \<Rightarrow> f),
           t_notes = b_notes b, t_date = now\<rparr>),
        s\<lparr>transactions := transactions s @
          [\<lparr>t_portfolioId = pid, t_userId = u, t_symbol = b_symbol b, t_type = b_type b,
            t_shares = b_shares b, t_price = b_price b, t_total = v,
            t_fees = (case b_fees b of None \<Rightarrow> 0 | Some f \<Rightarrow> f),
            t_notes = b_notes b, t_date = now\<rparr>]\<rparr>)"
  by (simp add: addTransaction_def Let_def)

lemma addTransaction_Inr:
  assumes "fst (addTransaction u pid b now s) = Inr r"
  shows "\<exists>t. r = TransactionData t \<and>
             snd (addTransaction u pid b now s) = s\<lparr>transactions := transactions s @ [t]\<rparr> \<and>
             t_type t = b_type b \<and> t_shares t = b_shares b \<and> t_price t = b_price b \<and>
             t_fees t = (case b_fees b of None \<Rightarrow> 0 | Some f \<Rightarrow> f) \<and>
             jsAdd (jsMul (b_shares b) (b_price b)) (t_fees t) = Some (t_total t)"
proof (cases "owns s u pid")
  case False
  then show ?thesis using assms by (simp add: addTransaction_not_owner)
next
  case True
  show ?thesis
  proof (cases "jsAdd (jsMul (b_shares b) (b_price b))
                  (case b_fees b of None \<Rightarrow> 0 | Some f \<Rightarrow> f)")
    case None
    then show ?thesis using assms True by (simp add: addTransaction_not_finite)
  next
    case (Some v)
    let ?t = "\<lparr>t_portfolioId = pid, t_userId = u, t_symbol = b_symbol b, t_type = b_type b,
               t_shares = b_shares b, t_price = b_price b, t_total = v,
               t_fees = (case b_fees b of None \<Rightarrow> 0 | Some f \<Rightarrow> f),
               t_notes = b_notes b, t_date = now\<rparr>"
    have "r = TransactionData ?t"
      using assms unfolding addTransaction_stored[OF True Some] by simp
    then show ?thesis
      by (intro exI[of _ ?t]) (simp add: Some addTransaction_stored[OF True Some])
  qed
qed

lemma addTransaction_frame:
  "portfolios (snd (addTransaction u pid b now s)) = portfolios s"
  "positions (snd (addTransaction u pid b now s)) = positions s"
  by (simp_all add: addTransaction_def Let_def split: option.split)

lemma postTransaction_frame:
  "portfolios (snd (postTransaction u pid b now s)) = portfolios s"
  "positions (snd (postTransaction u pid b now s)) = positions s"
  by (simp_all add: postTransaction_def validateRequest_def addTransaction_frame)

lemma getPositions_frame:
  "portfolios s' = portfolios s \<Longrightarrow> positions s' = positions s \<Longrightarrow>
   fst (getPositions u pid s') = fst (getPositions u pid s)"
  by (simp add: getPositions_def owns_def)

lemma exact_total:
  assumes "isDouble (x * y)" and "isDouble (x * y + f)" and "jsAdd (jsMul x y) f = Some v"
  shows "v = x * y + f"
  using assms by (simp add: isDouble_def jsAdd_def jsMul_def)

text \<open>
  Claim C1, as amended. For every transaction that the route accepts, the row in the
  response is the row appended to the stored transactions; its type is \<open>BUY\<close> or
  \<open>SELL\<close>, and its total is the value of \<open>shares * price + fees\<close> in double
  arithmetic, for a sale as well as for a purchase. When the product and the sum are
  doubles themselves, the stored total is exactly \<open>shares * price + fees\<close>.
\<close>

theorem stored_total:
  assumes "fst (postTransaction u pid b now s) = Inr r"
  shows "\<exists>t. r = TransactionData t \<and>
             transactions (snd (postTransaction u pid b now s)) = transactions s @ [t] \<and>
             (t_type t = ''BUY'' \<or> t_type t = ''SELL'') \<and>
             jsAdd (jsMul (t_shares t) (t_price t)) (t_fees t) = Some (t_total t) \<and>
             (isDouble (t_shares t * t_price t) \<and>
              isDouble (t_shares t * t_price t + t_fees t) \<longrightarrow>
                t_total t = t_shares t * t_price t + t_fees t)"
proof (cases "transactionValidation b = []")
  case False
  then show ?thesis using assms by (simp add: postTransaction_reject)
next
  case True
  then have p: "postTransaction u pid b now s = addTransaction u pid (sanitize b) now s"
    by (rule postTransaction_accept)
  with assms have "fst (addTransaction u pid (sanitize b) now s) = Inr r" by simp
  from addTransaction_Inr[OF this] obtain t where
    t: "r = TransactionData t"
      "snd (addTransaction u pid (sanitize b) now s) = s\<lparr>transactions := transactions s @ [t]\<rparr>"
      "t_type t = b_type (sanitize b)" "t_shares t = b_shares (sanitize b)"
      "t_price t = b_price (sanitize b)"
      "jsAdd (jsMul (b_shares (sanitize b)) (b_price (sanitize b))) (t_fees t) = Some (t_total t)"
    by blast
  have ty: "t_type t = ''BUY'' \<or> t_type t = ''SELL''"
    using True t(3) by (simp add: validation_ok_iff sanitize_def)
  have tot: "jsAdd (jsMul (t_shares t) (t_price t)) (t_fees t) = Some (t_total t)"
    using t(4,5,6) by simp
  have st: "transactions (snd (postTransaction u pid b now s)) = transactions s @ [t]"
    using p t(2) by simp
  have ex: "t_total t = t_shares t * t_price t + t_fees t"
    if "isDouble (t_shares t * t_price t) \<and> isDouble (t_shares t * t_price t + t_fees t)"
    using that tot by (blast intro: exact_total)
  from t(1) st ty tot ex show ?thesis by blast
qed

theorem stored_total_witness:
  "fst (postTransaction ''ann'' ''p1'' (sell 10) 7 store2) = Inr (TransactionData tx_sell10) \<and>
   transactions (snd (postTransaction ''ann'' ''p1'' (sell 10) 7 store2))
     = transactions store2 @ [tx_sell10] \<and>
   t_type tx_sell10 = ''SELL'' \<and>
   jsAdd (jsMul (t_shares tx_sell10) (t_price tx_sell10)) (t_fees tx_sell10)
     = Some (t_total tx_sell10) \<and>
   isDouble (t_shares tx_sell10 * t_price tx_sell10) \<and>
   isDouble (t_shares tx_sell10 * t_price tx_sell10 + t_fees tx_sell10) \<and>
   t_total tx_sell10 = t_shares tx_sell10 * t_price tx_sell10 + t_fees tx_sell10 \<and>
   t_total tx_sell10 = 51"
proof -
  have h: "fst (postTransaction ''ann'' ''p1'' (sell 10) 7 store2) = Inr (TransactionData tx_sell10)"
    by code_simp
  from stored_total[OF h] obtain t where
    t: "TransactionData tx_sell10 = TransactionData t"
      "transactions (snd (postTransaction ''ann'' ''p1'' (sell 10) 7 store2))
         = transactions store2 @ [t]"
      "jsAdd (jsMul (t_shares t) (t_price t)) (t_fees t) = Some (t_total t)"
      "isDouble (t_shares t * t_price t) \<and> isDouble (t_shares t * t_price t + t_fees t) \<longrightarrow>
         t_total t = t_shares t * t_price t + t_fees t"
    by blast
  from t(1) have e: "t = tx_sell10" by simp
  have ty: "t_type tx_sell10 = ''SELL''" and v: "t_total tx_sell10 = 51"
    by (simp_all add: tx_sell10_def)
  have d1: "isDouble (t_shares tx_sell10 * t_price tx_sell10)"
    using isDouble_of_int[of 50] by (simp add: tx_sell10_def)
  have d2: "isDouble (t_shares tx_sell10 * t_price tx_sell10 + t_fees tx_sell10)"
    using isDouble_of_int[of 51] by (simp add: tx_sell10_def)
  from t(4) d1 d2 have x: "t_total tx_sell10 = t_shares tx_sell10 * t_price tx_sell10 + t_fees tx_sell10"
    unfolding e by blast
  from h t(2,3) ty v d1 d2 x show ?thesis unfolding e by blast
qed

text \<open>
  The claim as stated fails for a sale with fees: selling 10 shares at 5 with fees 1
  stores a row with total 51, while \<open>shares * price - fees\<close> is 49, in exact and in
  double arithmetic.
\<close>

theorem sell_total_counterexample:
  "postTransaction ''ann'' ''p1'' (sell 10) 7 store2
     = (Inr (TransactionData tx_sell10), store2\<lparr>transactions := [tx_sell10]\<rparr>) \<and>
   t_type tx_sell10 = ''SELL'' \<and> t_total tx_sell10 = 51 \<and>
   t_shares tx_sell10 * t_price tx_sell10 - t_fees tx_sell10 = 49 \<and>
   jsMul (t_shares tx_sell10) (t_price tx_sell10) = Some 50 \<and>
   roundToDouble (50 - t_fees tx_sell10) = Some 49"
  by code_simp

text \<open>
  Rounding and overflow in the stored total: \<open>0.1 * 0.7\<close> is the double
  \<open>0.06999999999999999\<close>, not the double nearest to \<open>0.07\<close>; and a sale of \<open>1e200\<close>
  shares at \<open>1e200\<close> by the owner passes the validation, has no finite total, and stores
  nothing.
\<close>

lemma rounded_product:
  "roundToDouble (1 / 10) = Some d01 \<and> roundToDouble (7 / 10) = Some d07 \<and>
   jsMul d01 d07 = Some (5044031582654955 / 2 ^ 56) \<and>
   roundToDouble (7 / 100) = Some (1261007895663739 / 2 ^ 54)"
  by code_simp

lemma overflow_stores_nothing:
  "postTransaction ''ann'' ''p1'' sellHuge 7 store2 = (Inl ServerError, store2)"
proof -
  have v: "transactionValidation sellHuge = []" by code_simp
  have o: "owns store2 ''ann'' ''p1''" by code_simp
  have "pow2 1024 \<le> \<bar>d1e200 * d1e200\<bar>"
    by (simp add: pow2_def d1e200_def)
  then have "jsMul d1e200 d1e200 = None"
    unfolding jsMul_def by (rule roundToDouble_overflow)
  then have "jsAdd (jsMul (b_shares (sanitize sellHuge)) (b_price (sanitize sellHuge)))
               (case b_fees (sanitize sellHuge) of None \<Rightarrow> 0 | Some f \<Rightarrow> f) = None"
    by (simp add: sanitize_def sellHuge_def jsAdd_def)
  from addTransaction_not_finite[OF o this] show ?thesis
    by (simp add: postTransaction_accept[OF v])
qed

text \<open>
  Claim C2, as amended. The controller has no check of the shares held. A valid
  \<open>SELL\<close> by the owner of the portfolio for more shares than the position holds, whose
  total is finite, is accepted: exactly one transaction row is appended, and the
  positions are untouched, so a later query reports the same share count as before.
\<close>

theorem oversell_accepted:
  assumes "owns s u pid" and "transactionValidation b = []" and "b_type b = ''SELL''"
    and "heldShares s pid (trim (b_symbol b)) < b_shares b"
    and "jsAdd (jsMul (b_shares b) (b_price b)) (case b_fees b of None \<Rightarrow> 0 | Some f \<Rightarrow> f)
           = Some v"
  shows "\<exists>t. postTransaction u pid b now s
              = (Inr (TransactionData t), s\<lparr>transactions := transactions s @ [t]\<rparr>) \<and>
             t_type t = ''SELL'' \<and> t_shares t = b_shares b \<and> t_total t = v \<and>
             fst (getPositions u pid (snd (postTransaction u pid b now s)))
               = fst (getPositions u pid s) \<and>
             heldShares (snd (postTransaction u pid b now s)) pid (trim (b_symbol b))
               = heldShares s pid (trim (b_symbol b))"
proof -
  let ?t = "\<lparr>t_portfolioId = pid, t_userId = u, t_symbol = trim (b_symbol b), t_type = b_type b,
             t_shares = b_shares b, t_price = b_price b, t_total = v,
             t_fees = (case b_fees b of None \<Rightarrow> 0 | Some f \<Rightarrow> f),
             t_notes = b_notes b, t_date = now\<rparr>"
  have f: "jsAdd (jsMul (b_shares (sanitize b)) (b_price (sanitize b)))
             (case b_fees (sanitize b) of None \<Rightarrow> 0 | Some f \<Rightarrow> f) = Some v"
    using assms(5) by (simp add: sanitize_def)
  have p: "postTransaction u pid b now s
             = (Inr (TransactionData ?t), s\<lparr>transactions := transactions s @ [?t]\<rparr>)"
    unfolding postTransaction_accept[OF assms(2)] addTransaction_stored[OF assms(1) f]
    by (simp add: sanitize_def)
  have g: "fst (getPositions u pid (snd (postTransaction u pid b now s)))
             = fst (getPositions u pid s)"
    by (rule getPositions_frame) (rule postTransaction_frame)+
  have h: "heldShares (snd (postTransaction u pid b now s)) pid (trim (b_symbol b))
             = heldShares s pid (trim (b_symbol b))"
    by (simp add: heldShares_def postTransaction_frame)
  show ?thesis
  proof (intro exI[of _ ?t] conjI)
    show "postTransaction u pid b now s
            = (Inr (TransactionData ?t), s\<lparr>transactions := transactions s @ [?t]\<rparr>)"
      by (rule p)
    show "t_type ?t = ''SELL''" using assms(3) by simp
    show "t_shares ?t = b_shares b" by simp
    show "t_total ?t = v" by simp
    show "fst (getPositions u pid (snd (postTransaction u pid b now s)))
            = fst (getPositions u pid s)"
      by (rule g)
    show "heldShares (snd (postTransaction u pid b now s)) pid (trim (b_symbol b))
            = heldShares s pid (trim (b_symbol b))"
      by (rule h)
  qed
qed

theorem oversell_accepted_witness:
  "owns store2 ''ann'' ''p1'' \<and> transactionValidation (sell 60) = [] \<and>
   b_type (sell 60) = ''SELL'' \<and>
   heldShares store2 ''p1'' (trim (b_symbol (sell 60))) < b_shares (sell 60) \<and>
   jsAdd (jsMul (b_shares (sell 60)) (b_price (sell 60)))
     (case b_fees (sell 60) of None \<Rightarrow> 0 | Some f \<Rightarrow> f) = Some 301 \<and>
   (\<exists>t. postTransaction ''ann'' ''p1'' (sell 60) 7 store2
          = (Inr (TransactionData t), store2\<lparr>transactions := transactions store2 @ [t]\<rparr>) \<and>
         t_type t = ''SELL'' \<and> t_shares t = b_shares (sell 60) \<and> t_total t = 301 \<and>
         fst (getPositions ''ann'' ''p1'' (snd (postTransaction ''ann'' ''p1'' (sell 60) 7 store2)))
           = fst (getPositions ''ann'' ''p1'' store2) \<and>
         heldShares (snd (postTransaction ''ann'' ''p1'' (sell 60) 7 store2)) ''p1''
             (trim (b_symbol (sell 60)))
           = heldShares store2 ''p1'' (trim (b_symbol (sell 60))))"
proof -
  have h1: "owns store2 ''ann'' ''p1''" by code_simp
  have h2: "transactionValidation (sell 60) = []" by code_simp
  have h3: "b_type (sell 60) = ''SELL''" by code_simp
  have h4: "heldShares store2 ''p1'' (trim (b_symbol (sell 60))) < b_shares (sell 60)" by code_simp
  have h5: "jsAdd (jsMul (b_shares (sell 60)) (b_price (sell 60)))
     (case b_fees (sell 60) of None \<Rightarrow> 0 | Some f \<Rightarrow> f) = Some 301" by code_simp
  show ?thesis
    by (intro conjI h1 h2 h3 h4 h5 oversell_accepted[OF h1 h2 h3 h4 h5])
qed

text \<open>
  The claim as stated fails: with 50 shares held, the request to sell 60 succeeds and
  the store has one more transaction.
\<close>

theorem oversell_counterexample:
  "heldShares store2 ''p1'' ''AAPL'' = 50 \<and>
   postTransaction ''ann'' ''p1'' (sell 60) 7 store2
     = (Inr (TransactionData
          \<lparr>t_portfolioId = ''p1'', t_userId = ''ann'', t_symbol = ''AAPL'', t_type = ''SELL'',
           t_shares = 60, t_price = 5, t_total = 301, t_fees = 1, t_notes = None, t_date = 7\<rparr>),
        store2\<lparr>transactions :=
          [\<lparr>t_portfolioId = ''p1'', t_userId = ''ann'', t_symbol = ''AAPL'', t_type = ''SELL'',
            t_shares = 60, t_price = 5, t_total = 301, t_fees = 1, t_notes = None,
            t_date = 7\<rparr>]\<rparr>)"
  by code_simp

text \<open>
  Claim C5. A submitted transaction with non-positive shares or non-positive price is
  rejected with \<open>InvalidTransactionError\<close> and the store is left as it was; a
  transaction that is accepted has positive shares, positive price and non-negative
  fees.
\<close>

theorem invalid_transaction_rejected:
  "(b_shares b \<le> 0 \<or> b_price b \<le> 0 \<longrightarrow>
      postTransaction u pid b now s = (Inl InvalidTransactionError, s)) \<and>
   (\<forall>r. fst (postTransaction u pid b now s) = Inr r \<longrightarrow>
      0 < b_shares b \<and> 0 < b_price b \<and> (\<forall>f. b_fees b = Some f \<longrightarrow> 0 \<le> f) \<and>
      (\<exists>t. r = TransactionData t \<and> 0 < t_shares t \<and> 0 < t_price t \<and> 0 \<le> t_fees t))"
proof -
  have rej: "postTransaction u pid b now s = (Inl InvalidTransactionError, s)"
    if "b_shares b \<le> 0 \<or> b_price b \<le> 0"
  proof -
    from that have "transactionValidation b \<noteq> []"
      by (auto simp: validation_ok_iff)
    then show ?thesis by (rule postTransaction_reject)
  qed
  have acc: "0 < b_shares b \<and> 0 < b_price b \<and> (\<forall>f. b_fees b = Some f \<longrightarrow> 0 \<le> f) \<and>
      (\<exists>t. r = TransactionData t \<and> 0 < t_shares t \<and> 0 < t_price t \<and> 0 \<le> t_fees t)"
    if a: "fst (postTransaction u pid b now s) = Inr r" for r
  proof -
    from a have v: "transactionValidation b = []"
      by (cases "transactionValidation b = []") (simp_all add: postTransaction_reject)
    then have ok: "1 / 10000 \<le> b_shares b" "1 / 100 \<le> b_price b"
      "\<forall>f. b_fees b = Some f \<longrightarrow> 0 \<le> f"
      by (simp_all add: validation_ok_iff)
    have 1: "0 < b_shares b" using ok(1) by simp
    have 2: "0 < b_price b" using ok(2) by simp
    from a v have "fst (addTransaction u pid (sanitize b) now s) = Inr r"
      by (simp add: postTransaction_accept)
    from addTransaction_Inr[OF this] obtain t where
      t: "r = TransactionData t" "t_shares t = b_shares (sanitize b)"
        "t_price t = b_price (sanitize b)"
        "t_fees t = (case b_fees (sanitize b) of None \<Rightarrow> 0 | Some f \<Rightarrow> f)"
      by blast
    have "0 < t_shares t" "0 < t_price t" "0 \<le> t_fees t"
      using 1 2 ok(3) t(2,3,4) by (simp_all add: sanitize_def split: option.split)
    with t(1) have "\<exists>t. r = TransactionData t \<and> 0 < t_shares t \<and> 0 < t_price t \<and> 0 \<le> t_fees t"
      by blast
    with 1 2 ok(3) show ?thesis by blast
  qed
  from rej acc show ?thesis by blast
qed


theorem invalid_transaction_rejected_witness:
  "(b_shares (sell 0) \<le> 0 \<or> b_price (sell 0) \<le> 0) \<and>
   postTransaction ''ann'' ''p1'' (sell 0) 7 store2 = (Inl InvalidTransactionError, store2) \<and>
   fst (postTransaction ''ann'' ''p1'' (sell 10) 7 store2) = Inr (TransactionData tx_sell10) \<and>
   0 < b_shares (sell 10) \<and> 0 < b_price (sell 10)"
proof -
  have z: "b_shares (sell 0) \<le> 0 \<or> b_price (sell 0) \<le> 0" by code_simp
  have a: "fst (postTransaction ''ann'' ''p1'' (sell 10) 7 store2) = Inr (TransactionData tx_sell10)"
    by code_simp
  have 1: "postTransaction ''ann'' ''p1'' (sell 0) 7 store2 = (Inl InvalidTransactionError, store2)"
    using z invalid_transaction_rejected[of "sell 0" "''ann''" "''p1''" 7 store2] by blast
  have 2: "0 < b_shares (sell 10) \<and> 0 < b_price (sell 10)"
    using a invalid_transaction_rejected[of "sell 10" "''ann''" "''p1''" 7 store2] by blast
  from z 1 a 2 show ?thesis by blast
qed

text \<open>
  Claim C9. A successful \<open>addTransaction\<close> appends exactly one transaction row and
  leaves every position row (and every portfolio row) unchanged.
\<close>

theorem addTransaction_frame_effect:
  assumes "addTransaction u pid b now s = (Inr r, s')"
  shows "positions s' = positions s \<and> portfolios s' = portfolios s \<and>
         (\<exists>t. r = TransactionData t \<and> transactions s' = transactions s @ [t]) \<and>
         length (transactions s') = Suc (length (transactions s))"
  using assms by (auto simp: addTransaction_def Let_def split: if_splits option.splits)

theorem addTransaction_frame_effect_witness:
  "addTransaction ''ann'' ''p1'' (sell 10) 7 store2
     = (Inr (TransactionData tx_sell10), store2\<lparr>transactions := [tx_sell10]\<rparr>) \<and>
   positions (store2\<lparr>transactions := [tx_sell10]\<rparr>) = positions store2 \<and>
   portfolios (store2\<lparr>transactions := [tx_sell10]\<rparr>) = portfolios store2 \<and>
   (\<exists>t. TransactionData tx_sell10 = TransactionData t \<and>
        transactions (store2\<lparr>transactions := [tx_sell10]\<rparr>) = transactions store2 @ [t]) \<and>
   length (transactions (store2\<lparr>transactions := [tx_sell10]\<rparr>))
     = Suc (length (transactions store2))"
proof -
  have h: "addTransaction ''ann'' ''p1'' (sell 10) 7 store2
     = (Inr (TransactionData tx_sell10), store2\<lparr>transactions := [tx_sell10]\<rparr>)"
    by code_simp
  show ?thesis
    by (rule conjI[OF h addTransaction_frame_effect[OF h]])
qed

section \<open>Positions\<close>

text \<open>
  Claim C3 (the code departs from it). Adding 50 shares at 160 to a position of 50
  shares bought at 150 leaves a position of 100 shares with cost basis 7500 whose
  \<open>averagePrice\<close> is the placeholder \<open>0\<close>, not \<open>costBasis / shares\<close>.
\<close>

theorem addPosition_existing_averagePrice:
  "snd (addPosition ''ann'' ''p1'' ''AAPL'' 50 150 store1) = store2 \<and>
   snd (addPosition ''ann'' ''p1'' ''AAPL'' 50 160 store2)
     = store2\<lparr>positions := [aapl50\<lparr>shares := 100, averagePrice := 0\<rparr>]\<rparr> \<and>
   averagePrice (aapl50\<lparr>shares := 100, averagePrice := 0\<rparr>) = 0 \<and>
   costBasis (aapl50\<lparr>shares := 100, averagePrice := 0\<rparr>)
     / shares (aapl50\<lparr>shares := 100, averagePrice := 0\<rparr>) = 75"
  by code_simp

text \<open>
  Claim C6 (the code departs from it). A position is created with weight \<open>0\<close> and no
  operation ever assigns a weight: after adding a second position the market values
  sum to 10500 and the weights sum to \<open>0\<close>.
\<close>

theorem addPosition_weight_zero:
  "snd (addPosition ''ann'' ''p1'' ''MSFT'' 10 300 store2)
     = store2\<lparr>positions := [aapl50,
         \<lparr>portfolioId = ''p1'', symbol = ''MSFT'', shares = 10, averagePrice = 300,
          currentPrice = 300, marketValue = 3000, costBasis = 3000, gain = 0, gainPercent = 0,
          weight = 0\<rparr>]\<rparr> \<and>
   sum_list (map marketValue
      (positions (snd (addPosition ''ann'' ''p1'' ''MSFT'' 10 300 store2)))) = 10500 \<and>
   sum_list (map weight
      (positions (snd (addPosition ''ann'' ''p1'' ''MSFT'' 10 300 store2)))) = 0"
  by code_simp

text \<open>
  The weights of the dashboard's fixture are taken against a total value that is not
  the sum of the market values; they sum to 97.59.
\<close>

lemma mockPortfolio_weights:
  "0 < mockPortfolio_totalValue \<and>
   sum_list (map m_marketValue mockPortfolio_positions) = 122415 \<and>
   sum_list (map m_weight mockPortfolio_positions) = 9759 / 100"
  by code_simp






section \<open>Scoring the risk questionnaire\<close>

lemma indexOf_ge: "- 1 \<le> indexOf os a"
  by (induction os) (auto simp: Let_def)

lemma indexOf_notin: "a \<notin> set os \<Longrightarrow> indexOf os (Str a) = - 1"
  by (induction os) (auto simp: Let_def)

lemma indexOf_hd: "os \<noteq> [] \<Longrightarrow> indexOf os (Str (hd os)) = 0"
  by (cases os) simp_all

text \<open>
  Claim C10, as amended. For a multiple-choice question, an answer string that is not
  among the options has option index \<open>-1\<close>, which \<open>|| 0\<close> keeps, and contributes
  \<open>(-1 + 1) * weight = 0\<close> to the total score, while the first option contributes
  \<open>weight\<close>.
\<close>

theorem unmatched_answer_scores_zero:
  assumes "q_type q = MULTIPLE_CHOICE" and "q_options q = Some os" and "a \<notin> set os"
  shows "optionIndex q (Str a) = - 1 \<and> answerScore q (Str a) = Some 0 \<and>
         (os \<noteq> [] \<longrightarrow> answerScore q (Str (hd os)) = Some (q_weight q))"
  using assms
  by (simp add: optionIndex_def orZero_def answerScore_def indexOf_notin indexOf_hd)

theorem unmatched_answer_scores_zero_witness:
  "q_type (riskQuestions ! 2) = MULTIPLE_CHOICE \<and>
   q_options (riskQuestions ! 2)
     = Some [''Sell all investments immediately'', ''Sell some investments to reduce risk'',
             ''Hold and wait for recovery'', ''Buy more while prices are low''] \<and>
   ''Panic'' \<notin> set [''Sell all investments immediately'', ''Sell some investments to reduce risk'',
             ''Hold and wait for recovery'', ''Buy more while prices are low''] \<and>
   optionIndex (riskQuestions ! 2) (Str ''Panic'') = - 1 \<and>
   answerScore (riskQuestions ! 2) (Str ''Panic'') = Some 0 \<and>
   answerScore (riskQuestions ! 2) (Str ''Sell all investments immediately'')
     = Some (q_weight (riskQuestions ! 2))"
proof -
  have h1: "q_type (riskQuestions ! 2) = MULTIPLE_CHOICE" by code_simp
  have h2: "q_options (riskQuestions ! 2)
     = Some [''Sell all investments immediately'', ''Sell some investments to reduce risk'',
             ''Hold and wait for recovery'', ''Buy more while prices are low'']" by code_simp
  have h3: "''Panic'' \<notin> set [''Sell all investments immediately'',
             ''Sell some investments to reduce risk'',
             ''Hold and wait for recovery'', ''Buy more while prices are low'']" by simp
  note c = unmatched_answer_scores_zero[OF h1 h2 h3]
  have 1: "optionIndex (riskQuestions ! 2) (Str ''Panic'') = - 1" using c by (rule conjunct1)
  have 2: "answerScore (riskQuestions ! 2) (Str ''Panic'') = Some 0"
    using c by (elim conjE)
  have 3: "answerScore (riskQuestions ! 2) (Str ''Sell all investments immediately'')
             = Some (q_weight (riskQuestions ! 2))"
    using c by simp
  show ?thesis
    by (intro conjI h1 h2 h3 1 2 3)
qed

text \<open>
  The claim as stated fails: for question 3 an unmatched answer contributes \<open>0\<close> and the
  first option contributes \<open>5\<close>, and with the other answers fixed the two give different
  risk profiles.
\<close>

theorem unmatched_answer_counterexample:
  "answerScore (riskQuestions ! 2) (Str ''Panic'') = Some 0 \<and>
   answerScore (riskQuestions ! 2) (Str ''Sell all investments immediately'') = Some ((0 + 1) * 5) \<and>
   calculateRiskProfile answers1 = Some moderate \<and>
   calculateRiskProfile (answers1(''3'' \<mapsto> Str ''Panic'')) = Some conservative"
  by code_simp

end
